theory Spec2Isabelle
  imports Complex_Main
begin

section \<open>Python values, exceptions and the operations the predicates use\<close>

text \<open>
  The module \<^verbatim>\<open>krotov/convergence.py\<close> builds convergence predicates: functions
  that receive a \<^verbatim>\<open>Result\<close> and return \<^verbatim>\<open>None\<close> or a message string, or raise.
  A Python value is \<^verbatim>\<open>None\<close>, a float or a string here. Floats are modelled by exact
  real numbers: non-finite values and rounding are outside this model.
\<close>

datatype pyval = PyNone | PyFloat real | PyStr string

datatype exc_class =
    AttributeError | KeyError | IndexError | GlomError | PathAccessError
  | TypeError | ValueError | OtherError string

text \<open>An exception object: its class and its message.\<close>

datatype exc = Exc (exc_cls: exc_class) (exc_msg: string)

text \<open>
  The clause \<^verbatim>\<open>except (AttributeError, KeyError, IndexError, glom.GlomError)\<close>.
  glom's \<^verbatim>\<open>PathAccessError\<close> is a subclass of all four.
\<close>

fun caught :: "exc_class \<Rightarrow> bool" where
  "caught AttributeError = True"
| "caught KeyError = True"
| "caught IndexError = True"
| "caught GlomError = True"
| "caught PathAccessError = True"
| "caught TypeError = False"
| "caught ValueError = False"
| "caught (OtherError c) = False"

text \<open>\<^verbatim>\<open>bool(msg)\<close>: \<^verbatim>\<open>None\<close>, zero and the empty string are falsy.\<close>

fun truthy :: "pyval \<Rightarrow> bool" where
  "truthy PyNone = False"
| "truthy (PyFloat x) = (x \<noteq> 0)"
| "truthy (PyStr s) = (s \<noteq> [])"

fun type_name :: "pyval \<Rightarrow> string" where
  "type_name PyNone = ''NoneType''"
| "type_name (PyFloat x) = ''float''"
| "type_name (PyStr s) = ''str''"

definition quoted :: "string \<Rightarrow> string" where
  "quoted s = [CHR 0x27] @ s @ [CHR 0x27]"

text \<open>\<^verbatim>\<open>a - b\<close>: defined on two floats, a \<^verbatim>\<open>TypeError\<close> otherwise.\<close>

fun py_sub :: "pyval \<Rightarrow> pyval \<Rightarrow> exc + pyval" where
  "py_sub (PyFloat a) (PyFloat b) = Inr (PyFloat (a - b))"
| "py_sub a b =
     Inl (Exc TypeError (''unsupported operand type(s) for -: '' @ quoted (type_name a)
            @ '' and '' @ quoted (type_name b)))"

text \<open>\<^verbatim>\<open>abs(a)\<close>.\<close>

fun py_abs :: "pyval \<Rightarrow> exc + pyval" where
  "py_abs (PyFloat a) = Inr (PyFloat \<bar>a\<bar>)"
| "py_abs a = Inl (Exc TypeError (''bad operand type for abs(): '' @ quoted (type_name a)))"

text \<open>\<^verbatim>\<open>a < l\<close> for a float \<open>l\<close> on the right.\<close>

fun py_lt :: "pyval \<Rightarrow> real \<Rightarrow> exc + bool" where
  "py_lt (PyFloat a) l = Inr (a < l)"
| "py_lt a l =
     Inl (Exc TypeError ([CHR 0x27, CHR ''<'', CHR 0x27] @ '' not supported between instances of ''
            @ quoted (type_name a) @ '' and '' @ quoted ''float''))"

subsection \<open>Decimal form of an integer\<close>

definition digit_char :: "nat \<Rightarrow> char" where
  "digit_char d = ''0123456789'' ! d"

function show_nat :: "nat \<Rightarrow> string" where
  "show_nat n = (if n < 10 then [digit_char n] else show_nat (n div 10) @ [digit_char (n mod 10)])"
  by pat_completeness auto
termination
  by (relation "measure id") auto

declare show_nat.simps [simp del]

text \<open>\<^verbatim>\<open>str(i)\<close> of a Python int.\<close>

definition show_int :: "int \<Rightarrow> string" where
  "show_int i = (if i < 0 then ''-'' @ show_nat (nat (- i)) else show_nat (nat i))"

subsection \<open>The limit and the builtins applied to it\<close>

text \<open>
  The \<^verbatim>\<open>limit\<close> argument is documented as a float or the string form of a float; the
  module itself passes the int \<^verbatim>\<open>0\<close>.
\<close>

datatype limit = LimInt int | LimFloat real | LimStr string

text \<open>
  What the code uses and does not define: Python's \<^verbatim>\<open>float\<close> on a string (the parsed
  value, or the exception it raises), Python's \<^verbatim>\<open>str\<close> on a float, and the message of
  the error glom raises when an index of a path cannot be resolved.
\<close>

record pyenv =
  float_str :: "string \<Rightarrow> exc + real"
  str_float :: "real \<Rightarrow> string"
  path_access_msg :: "int \<Rightarrow> string"

text \<open>\<^verbatim>\<open>float(limit)\<close>.\<close>

fun py_float :: "pyenv \<Rightarrow> limit \<Rightarrow> exc + real" where
  "py_float E (LimInt i) = Inr (of_int i)"
| "py_float E (LimFloat x) = Inr x"
| "py_float E (LimStr s) = float_str E s"

text \<open>\<^verbatim>\<open>str(limit)\<close>, as the format \<^verbatim>\<open>%s\<close> applies it.\<close>

fun py_str :: "pyenv \<Rightarrow> limit \<Rightarrow> string" where
  "py_str E (LimInt i) = show_int i"
| "py_str E (LimFloat x) = str_float E x"
| "py_str E (LimStr s) = s"

section \<open>The Result and the extraction of values\<close>

text \<open>Of \<^verbatim>\<open>krotov.result.Result\<close> the module reads the list \<^verbatim>\<open>info_vals\<close> only.\<close>

record result =
  info_vals :: "pyval list"

text \<open>
  A glom specification together with the keyword arguments it is evaluated under:
  \<open>glom spec result\<close> is \<^verbatim>\<open>glom.glom(result, spec, **kwargs)\<close>, a value or the exception
  raised, and \<open>spec_str spec\<close> is \<^verbatim>\<open>str(spec)\<close>.
\<close>

record spec =
  glom :: "result \<Rightarrow> exc + pyval"
  spec_str :: string

text \<open>Python list indexing, negative indices counting from the end.\<close>

definition py_index :: "'a list \<Rightarrow> int \<Rightarrow> 'a option" where
  "py_index xs i =
     (let n = int (length xs); j = (if i < 0 then i + n else i)
      in if 0 \<le> j \<and> j < n then Some (xs ! nat j) else None)"

text \<open>The specification \<^verbatim>\<open>('info_vals', glom.T[i])\<close>.\<close>

definition info_vals_T :: "pyenv \<Rightarrow> int \<Rightarrow> spec" where
  "info_vals_T E i =
     \<lparr> glom = (\<lambda>result. case py_index (info_vals result) i of
                  Some v \<Rightarrow> Inr v
                | None \<Rightarrow> Inl (Exc PathAccessError (path_access_msg E i))),
       spec_str = ''('' @ quoted ''info_vals'' @ '', T['' @ show_int i @ ''])'' \<rparr>"

section \<open>The combinator Or\<close>

text \<open>
  A predicate is a Python callable, so calling it may have an effect besides its outcome:
  it takes the state \<open>'s\<close> of the run and returns the state after the call.
\<close>

type_synonym 's predicate = "result \<Rightarrow> 's \<Rightarrow> (exc + pyval) \<times> 's"

text \<open>The loop of \<^verbatim>\<open>Or(*funcs).check_convergence\<close>.\<close>

fun Or :: "'s predicate list \<Rightarrow> 's predicate" where
  "Or [] result s = (Inr PyNone, s)"
| "Or (func # funcs) result s =
     (case func result s of
        (Inl e, s') \<Rightarrow> (Inl e, s')
      | (Inr msg, s') \<Rightarrow> if truthy msg then (Inr msg, s') else Or funcs result s')"

text \<open>A predicate without effect, as a predicate.\<close>

definition pure_predicate :: "(result \<Rightarrow> exc + pyval) \<Rightarrow> 's predicate" where
  "pure_predicate p = (\<lambda>result s. (p result, s))"

text \<open>
  Evaluating \<open>funcs\<close> in order from state \<open>s\<close>: the state after the last of them when each
  one returned a falsy value, \<open>None\<close> as soon as one raises or returns a truthy value.
\<close>

fun all_falsy :: "'s predicate list \<Rightarrow> result \<Rightarrow> 's \<Rightarrow> 's option" where
  "all_falsy [] result s = Some s"
| "all_falsy (func # funcs) result s =
     (case func result s of
        (Inl e, s') \<Rightarrow> None
      | (Inr msg, s') \<Rightarrow> if truthy msg then None else all_falsy funcs result s')"

section \<open>value_below\<close>

text \<open>The closure \<^verbatim>\<open>check_convergence\<close> of \<^verbatim>\<open>value_below\<close>, with the variables it captures.\<close>

definition value_below_check :: "pyenv \<Rightarrow> limit \<Rightarrow> spec \<Rightarrow> string \<Rightarrow> result \<Rightarrow> exc + pyval" where
  "value_below_check E limit spc name result =
     (case glom spc result of
        Inl e \<Rightarrow> Inl e
      | Inr v \<Rightarrow>
          (case py_float E limit of
             Inl e \<Rightarrow> Inl e
           | Inr l \<Rightarrow>
               (case py_lt v l of
                  Inl e \<Rightarrow> Inl e
                | Inr b \<Rightarrow>
                    if b then Inr (PyStr (name @ '' < '' @ py_str E limit))
                    else Inr PyNone)))"

text \<open>The constructor: \<^verbatim>\<open>name\<close> defaults to \<^verbatim>\<open>str(spec)\<close>.\<close>

definition value_below :: "pyenv \<Rightarrow> limit \<Rightarrow> spec \<Rightarrow> string option \<Rightarrow> result \<Rightarrow> exc + pyval" where
  "value_below E limit spc name =
     value_below_check E limit spc (case name of None \<Rightarrow> spec_str spc | Some n \<Rightarrow> n)"

section \<open>delta_below\<close>

text \<open>
  One \<^verbatim>\<open>try\<close> block of \<^verbatim>\<open>delta_below\<close>: the extracted value and \<^verbatim>\<open>delayed_exc\<close> after
  it; an exception the \<^verbatim>\<open>except\<close> clause does not catch propagates.
\<close>

definition try_glom :: "spec \<Rightarrow> result \<Rightarrow> exc option \<Rightarrow> exc + (pyval \<times> exc option)" where
  "try_glom spc result delayed_exc =
     (case glom spc result of
        Inr v \<Rightarrow> Inr (v, delayed_exc)
      | Inl e \<Rightarrow> if caught (exc_cls e) then Inr (PyNone, Some e) else Inl e)"

text \<open>The closure \<^verbatim>\<open>check_convergence\<close> of \<^verbatim>\<open>delta_below\<close>.\<close>

definition delta_below_check ::
  "pyenv \<Rightarrow> limit \<Rightarrow> spec \<Rightarrow> spec \<Rightarrow> bool \<Rightarrow> string \<Rightarrow> result \<Rightarrow> exc + pyval" where
  "delta_below_check E limit spec1 spec0 absolute_value name result =
     (case try_glom spec1 result None of
        Inl e \<Rightarrow> Inl e
      | Inr (v1, delayed1) \<Rightarrow>
     (case try_glom spec0 result delayed1 of
        Inl e \<Rightarrow> Inl e
      | Inr (v0, delayed_exc) \<Rightarrow>
     if (v1 = PyNone) \<noteq> (v0 = PyNone) then Inr PyNone
     else
     (case delayed_exc of
        Some e \<Rightarrow> Inl e
      | None \<Rightarrow>
     (case py_sub v1 v0 of
        Inl e \<Rightarrow> Inl e
      | Inr delta \<Rightarrow>
     (case (if absolute_value then py_abs delta else Inr delta) of
        Inl e \<Rightarrow> Inl e
      | Inr delta' \<Rightarrow>
     (case py_float E limit of
        Inl e \<Rightarrow> Inl e
      | Inr l \<Rightarrow>
     (case py_lt delta' l of
        Inl e \<Rightarrow> Inl e
      | Inr b \<Rightarrow>
          if b then Inr (PyStr (name @ '' < '' @ py_str E limit))
          else Inr PyNone)))))))"

text \<open>The default name: the letter Delta (two bytes in UTF-8), then both specifications.\<close>

definition delta_name :: "spec \<Rightarrow> spec \<Rightarrow> string" where
  "delta_name spec1 spec0 =
     [CHR 0xCE, CHR 0x94] @ ''('' @ spec_str spec1 @ '','' @ spec_str spec0 @ '')''"

definition delta_below ::
  "pyenv \<Rightarrow> limit \<Rightarrow> spec \<Rightarrow> spec \<Rightarrow> bool \<Rightarrow> string option \<Rightarrow> result \<Rightarrow> exc + pyval" where
  "delta_below E limit spec1 spec0 absolute_value name =
     delta_below_check E limit spec1 spec0 absolute_value
       (case name of None \<Rightarrow> delta_name spec1 spec0 | Some n \<Rightarrow> n)"

section \<open>The monotonicity predicates\<close>

definition monotonic_convergence :: "pyenv \<Rightarrow> result \<Rightarrow> exc + pyval" where
  "monotonic_convergence E =
     delta_below E (LimInt 0) (info_vals_T E (- 2)) (info_vals_T E (- 1)) False
       (Some ''Loss of monotonic convergence; error decrease'')"

definition monotonic_fidelity :: "pyenv \<Rightarrow> result \<Rightarrow> exc + pyval" where
  "monotonic_fidelity E =
     delta_below E (LimInt 0) (info_vals_T E (- 1)) (info_vals_T E (- 2)) False
       (Some ''Loss of monotonic convergence; fidelity increase'')"

definition check_monotonic_error :: "pyenv \<Rightarrow> result \<Rightarrow> exc + pyval" where
  "check_monotonic_error E result = monotonic_convergence E result"

definition check_monotonic_fidelity :: "pyenv \<Rightarrow> result \<Rightarrow> exc + pyval" where
  "check_monotonic_fidelity E result = monotonic_fidelity E result"

section \<open>Data for the examples\<close>

text \<open>
  An environment for the examples. Of Python's \<^verbatim>\<open>float\<close> on strings it has the one
  conversion the module's doctests use, \<^verbatim>\<open>float('1e-4')\<close>; every other string gets
  the \<^verbatim>\<open>ValueError\<close> of a string that \<^verbatim>\<open>float\<close> cannot parse, and the examples
  apply it to \<^verbatim>\<open>'abc'\<close> only. The text of the path error stands for glom's.
\<close>

definition example_env :: pyenv where
  "example_env =
     \<lparr> float_str = (\<lambda>s. if s = ''1e-4'' then Inr (1 / 10000)
                        else Inl (Exc ValueError (''could not convert string to float: '' @ quoted s))),
       str_float = (\<lambda>x. if x = 1 / 10000 then ''0.0001'' else ''?''),
       path_access_msg = (\<lambda>i. ''could not access T['' @ show_int i @ '']'') \<rparr>"

text \<open>A predicate that appends its number to the log of calls, the state of the run.\<close>

definition logged :: "nat \<Rightarrow> (result \<Rightarrow> exc + pyval) \<Rightarrow> nat list predicate" where
  "logged i p = (\<lambda>result s. (p result, s @ [i]))"

section \<open>Evaluation lemmas\<close>

lemma show_nat_digit: "n < 10 \<Longrightarrow> show_nat n = [digit_char n]"
  by (subst show_nat.simps) simp

lemma show_int_0: "show_int 0 = ''0''"
  by (simp add: show_int_def show_nat_digit digit_char_def)

lemma show_int_m1: "show_int (- 1) = ''-1''"
  by (simp add: show_int_def show_nat_digit digit_char_def)

lemma show_int_m2: "show_int (- 2) = ''-2''"
  by (simp add: show_int_def show_nat_digit digit_char_def)

lemma py_index_last2:
  "py_index (xs @ [a, b]) (- 1) = Some b" "py_index (xs @ [a, b]) (- 2) = Some a"
proof -
  have n1: "nat (1 + int (length xs)) = Suc (length xs)" by simp
  show "py_index (xs @ [a, b]) (- 1) = Some b"
    by (simp add: py_index_def nth_append n1)
  show "py_index (xs @ [a, b]) (- 2) = Some a"
    by (simp add: py_index_def nth_append)
qed

lemmas delta_below_unfold = delta_below_def delta_below_check_def try_glom_def

lemmas info_vals_T_unfold = info_vals_T_def py_index_def

section \<open>Or\<close>

lemma Or_all_falsy:
  "all_falsy funcs result s = Some s' \<Longrightarrow> Or funcs result s = (Inr PyNone, s')"
  by (induction funcs arbitrary: s) (auto split: prod.splits sum.splits if_splits)

lemma Or_None_all_falsy:
  "Or funcs result s = (Inr PyNone, s') \<Longrightarrow> all_falsy funcs result s = Some s'"
  by (induction funcs arbitrary: s) (auto split: prod.splits sum.splits if_splits)

lemma Or_skips_falsy:
  "all_falsy ps result s = Some s1 \<Longrightarrow> Or (ps @ qs) result s = Or qs result s1"
  by (induction ps arbitrary: s) (auto split: prod.splits sum.splits if_splits)

text \<open>An exception of a predicate ends the loop with that exception.\<close>

lemma Or_raises:
  "all_falsy ps result s = Some s1 \<Longrightarrow> p result s1 = (Inl e, s2)
     \<Longrightarrow> Or (ps @ p # qs) result s = (Inl e, s2)"
  by (simp add: Or_skips_falsy)

text \<open>Predicates without effect leave the state as it was.\<close>

lemma Or_pure_state: "snd (Or (map pure_predicate ps) result s) = s"
  by (induction ps) (auto simp: pure_predicate_def split: sum.splits)

text \<open>
  C3: a predicate built by \<^verbatim>\<open>Or(p1, ..., pn)\<close> calls the predicates in the order of
  construction. When the predicates \<open>ps\<close> before \<open>p\<close> have all returned a falsy value,
  taking the state from \<open>s\<close> to \<open>s1\<close>, and \<open>p\<close> then returns a truthy \<open>msg\<close> and
  the state \<open>s2\<close>, the result is \<open>msg\<close> and the final state is \<open>s2\<close>, whatever the
  later predicates \<open>qs\<close> are: none of them is called. The result is \<^verbatim>\<open>None\<close> if and
  only if every predicate was called, in order, and returned a falsy value.
\<close>

theorem Or_first_truthy:
  "(all_falsy ps result s = Some s1 \<and> p result s1 = (Inr msg, s2) \<and> truthy msg
      \<longrightarrow> Or (ps @ p # qs) result s = (Inr msg, s2))
   \<and> (Or funcs result s = (Inr PyNone, s') \<longleftrightarrow> all_falsy funcs result s = Some s')"
proof (intro conjI impI)
  assume h: "all_falsy ps result s = Some s1 \<and> p result s1 = (Inr msg, s2) \<and> truthy msg"
  then have "Or (ps @ p # qs) result s = Or (p # qs) result s1"
    by (simp add: Or_skips_falsy)
  with h show "Or (ps @ p # qs) result s = (Inr msg, s2)"
    by simp
next
  show "Or funcs result s = (Inr PyNone, s') \<longleftrightarrow> all_falsy funcs result s = Some s'"
    by (rule iffI) (erule Or_None_all_falsy, erule Or_all_falsy)
qed

text \<open>
  The log of calls shows the order and the short circuit: of a predicate returning
  \<^verbatim>\<open>None\<close>, one that fires and one that would raise, the third is never called. The
  empty string is falsy as \<^verbatim>\<open>None\<close> is.
\<close>

theorem Or_first_truthy_witness:
  "all_falsy [logged 0 (\<lambda>r. Inr PyNone)] \<lparr>info_vals = []\<rparr> [] = Some [0]
   \<and> logged 1 (\<lambda>r. Inr (PyStr ''A'')) \<lparr>info_vals = []\<rparr> [0] = (Inr (PyStr ''A''), [0, 1])
   \<and> truthy (PyStr ''A'')
   \<and> Or [logged 0 (\<lambda>r. Inr PyNone), logged 1 (\<lambda>r. Inr (PyStr ''A'')),
          logged 2 (\<lambda>r. Inl (Exc (OtherError ''RuntimeError'') ''B''))] \<lparr>info_vals = []\<rparr> []
       = (Inr (PyStr ''A''), [0, 1])
   \<and> all_falsy [logged 0 (\<lambda>r. Inr PyNone), logged 3 (\<lambda>r. Inr (PyStr []))]
         \<lparr>info_vals = []\<rparr> []
       = Some [0, 3]
   \<and> Or [logged 0 (\<lambda>r. Inr PyNone), logged 3 (\<lambda>r. Inr (PyStr []))] \<lparr>info_vals = []\<rparr> []
       = (Inr PyNone, [0, 3])"
  using Or_first_truthy [where ps = "[logged 0 (\<lambda>r. Inr PyNone)]"
      and p = "logged 1 (\<lambda>r. Inr (PyStr ''A''))"
      and qs = "[logged 2 (\<lambda>r. Inl (Exc (OtherError ''RuntimeError'') ''B''))]"
      and result = "\<lparr>info_vals = []\<rparr>" and s = "[]" and ?s1.0 = "[0]" and ?s2.0 = "[0, 1]"
      and msg = "PyStr ''A''"
      and funcs = "[logged 0 (\<lambda>r. Inr PyNone), logged 3 (\<lambda>r. Inr (PyStr []))]"
      and s' = "[0, 3]"]
  by (simp add: logged_def)

text \<open>
  C10: \<^verbatim>\<open>Or()\<close> with no predicate returns a predicate that returns \<^verbatim>\<open>None\<close>, the
  signal "not converged", for every Result, and leaves the state as it was.
\<close>

theorem Or_no_predicates: "Or [] result s = (Inr PyNone, s)"
  by simp

section \<open>value_below\<close>

text \<open>
  C4: when the specification extracts the float \<open>v\<close> from the Result and
  \<^verbatim>\<open>float(limit)\<close> is \<open>l\<close>, the predicate of \<^verbatim>\<open>value_below\<close> returns the message
  \<^verbatim>\<open>"{name} < {limit}"\<close> if \<open>v < l\<close> (strictly) and \<^verbatim>\<open>None\<close> otherwise, that is, if
  \<open>l \<le> v\<close>.
\<close>

theorem value_below_threshold:
  assumes "glom spc result = Inr (PyFloat v)" and "py_float E limit = Inr l"
  shows "value_below E limit spc name result =
           (if v < l
            then Inr (PyStr ((case name of None \<Rightarrow> spec_str spc | Some n \<Rightarrow> n)
                               @ '' < '' @ py_str E limit))
            else Inr PyNone)"
  using assms by (simp add: value_below_def value_below_check_def)

text \<open>The doctest of \<^verbatim>\<open>value_below\<close>: limit \<^verbatim>\<open>'1e-4'\<close>, values \<^verbatim>\<open>1e-4\<close>, then \<^verbatim>\<open>9e-5\<close>.\<close>

theorem value_below_threshold_witness:
  "glom (info_vals_T example_env (- 1)) \<lparr>info_vals = [PyFloat (1 / 10000)]\<rparr>
       = Inr (PyFloat (1 / 10000))
   \<and> glom (info_vals_T example_env (- 1))
         \<lparr>info_vals = [PyFloat (1 / 10000), PyFloat (9 / 100000)]\<rparr>
       = Inr (PyFloat (9 / 100000))
   \<and> py_float example_env (LimStr ''1e-4'') = Inr (1 / 10000)
   \<and> value_below example_env (LimStr ''1e-4'') (info_vals_T example_env (- 1)) (Some ''J_T'')
         \<lparr>info_vals = [PyFloat (1 / 10000)]\<rparr>
       = Inr PyNone
   \<and> value_below example_env (LimStr ''1e-4'') (info_vals_T example_env (- 1)) (Some ''J_T'')
         \<lparr>info_vals = [PyFloat (1 / 10000), PyFloat (9 / 100000)]\<rparr>
       = Inr (PyStr ''J_T < 1e-4'')"
proof -
  let ?spc = "info_vals_T example_env (- 1)"
  have g1: "glom ?spc \<lparr>info_vals = [PyFloat (1 / 10000)]\<rparr> = Inr (PyFloat (1 / 10000))"
    by (simp add: info_vals_T_unfold)
  have g2: "glom ?spc \<lparr>info_vals = [PyFloat (1 / 10000), PyFloat (9 / 100000)]\<rparr>
              = Inr (PyFloat (9 / 100000))"
    by (simp add: info_vals_T_unfold)
  have f: "py_float example_env (LimStr ''1e-4'') = Inr (1 / 10000)"
    by (simp add: example_env_def)
  show ?thesis
    using g1 g2 f
      value_below_threshold [OF g1 f, of "Some ''J_T''"]
      value_below_threshold [OF g2 f, of "Some ''J_T''"]
    by simp
qed

section \<open>delta_below\<close>



text \<open>
  C6: when both extractions fail with an exception the \<^verbatim>\<open>except\<close> clause catches, the
  predicate raises the exception captured last, that of the \<^verbatim>\<open>spec0\<close> extraction: the
  same exception value, so the same class and the same message.
\<close>

theorem delta_below_both_fail:
  assumes "glom spec1 result = Inl e1" and "caught (exc_cls e1)"
    and "glom spec0 result = Inl e0" and "caught (exc_cls e0)"
  shows "delta_below E limit spec1 spec0 absolute_value name result = Inl e0"
  using assms by (simp add: delta_below_unfold)

text \<open>
  On an empty \<^verbatim>\<open>info_vals\<close> the default specifications both fail, and the error raised
  is the one for \<^verbatim>\<open>T[-2]\<close>, not the one for \<^verbatim>\<open>T[-1]\<close>.
\<close>

theorem delta_below_both_fail_witness:
  "glom (info_vals_T example_env (- 1)) \<lparr>info_vals = []\<rparr>
       = Inl (Exc PathAccessError ''could not access T[-1]'')
   \<and> caught (exc_cls (Exc PathAccessError ''could not access T[-1]''))
   \<and> glom (info_vals_T example_env (- 2)) \<lparr>info_vals = []\<rparr>
       = Inl (Exc PathAccessError ''could not access T[-2]'')
   \<and> caught (exc_cls (Exc PathAccessError ''could not access T[-2]''))
   \<and> delta_below example_env (LimStr ''1e-4'') (info_vals_T example_env (- 1))
         (info_vals_T example_env (- 2)) True None \<lparr>info_vals = []\<rparr>
       = Inl (Exc PathAccessError ''could not access T[-2]'')"
proof -
  let ?e1 = "Exc PathAccessError ''could not access T[-1]''"
  let ?e0 = "Exc PathAccessError ''could not access T[-2]''"
  have g1: "glom (info_vals_T example_env (- 1)) \<lparr>info_vals = []\<rparr> = Inl ?e1"
    by (simp add: info_vals_T_unfold example_env_def show_int_m1)
  have g0: "glom (info_vals_T example_env (- 2)) \<lparr>info_vals = []\<rparr> = Inl ?e0"
    by (simp add: info_vals_T_unfold example_env_def show_int_m2)
  have c1: "caught (exc_cls ?e1)" and c0: "caught (exc_cls ?e0)"
    by simp_all
  show ?thesis
    using g1 c1 g0 c0
      delta_below_both_fail [OF g1 c1 g0 c0, of example_env "LimStr ''1e-4''" True None]
    by simp
qed

text \<open>
  C1, as amended: when exactly one of the two extractions fails with an exception the
  \<^verbatim>\<open>except\<close> clause catches and the other one extracts a value that is not \<^verbatim>\<open>None\<close>,
  the predicate returns \<^verbatim>\<open>None\<close> and does not raise; when both extractions fail with
  such an exception, it raises the captured one (that of the \<^verbatim>\<open>spec0\<close> extraction) and
  does not return.
\<close>

theorem delta_below_missing_data:
  "(glom spec1 result = Inl e1 \<and> caught (exc_cls e1) \<and> glom spec0 result = Inr v0 \<and> v0 \<noteq> PyNone
      \<longrightarrow> delta_below E limit spec1 spec0 absolute_value name result = Inr PyNone)
   \<and> (glom spec1 result = Inr v1 \<and> v1 \<noteq> PyNone \<and> glom spec0 result = Inl e0 \<and> caught (exc_cls e0)
      \<longrightarrow> delta_below E limit spec1 spec0 absolute_value name result = Inr PyNone)
   \<and> (glom spec1 result = Inl e1 \<and> caught (exc_cls e1) \<and> glom spec0 result = Inl e0
        \<and> caught (exc_cls e0)
      \<longrightarrow> delta_below E limit spec1 spec0 absolute_value name result = Inl e0)"
  by (simp add: delta_below_unfold)

text \<open>
  With one value in \<^verbatim>\<open>info_vals\<close> the entry \<^verbatim>\<open>T[-2]\<close> is missing, whichever of the two
  specifications asks for it; with none, both are.
\<close>

theorem delta_below_missing_data_witness:
  "glom (info_vals_T example_env (- 2)) \<lparr>info_vals = [PyFloat (9 / 10)]\<rparr>
       = Inl (Exc PathAccessError ''could not access T[-2]'')
   \<and> caught (exc_cls (Exc PathAccessError ''could not access T[-2]''))
   \<and> glom (info_vals_T example_env (- 1)) \<lparr>info_vals = [PyFloat (9 / 10)]\<rparr>
       = Inr (PyFloat (9 / 10))
   \<and> PyFloat (9 / 10) \<noteq> PyNone
   \<and> delta_below example_env (LimInt 0) (info_vals_T example_env (- 2))
         (info_vals_T example_env (- 1)) False None \<lparr>info_vals = [PyFloat (9 / 10)]\<rparr>
       = Inr PyNone
   \<and> delta_below example_env (LimStr ''1e-4'') (info_vals_T example_env (- 1))
         (info_vals_T example_env (- 2)) True None \<lparr>info_vals = [PyFloat (9 / 10)]\<rparr>
       = Inr PyNone
   \<and> glom (info_vals_T example_env (- 1)) \<lparr>info_vals = []\<rparr>
       = Inl (Exc PathAccessError ''could not access T[-1]'')
   \<and> glom (info_vals_T example_env (- 2)) \<lparr>info_vals = []\<rparr>
       = Inl (Exc PathAccessError ''could not access T[-2]'')
   \<and> delta_below example_env (LimStr ''1e-4'') (info_vals_T example_env (- 1))
         (info_vals_T example_env (- 2)) True None \<lparr>info_vals = []\<rparr>
       = Inl (Exc PathAccessError ''could not access T[-2]'')"
proof -
  let ?last = "info_vals_T example_env (- 1)" and ?prev = "info_vals_T example_env (- 2)"
  let ?e1 = "Exc PathAccessError ''could not access T[-1]''"
  let ?e0 = "Exc PathAccessError ''could not access T[-2]''"
  let ?r = "\<lparr>info_vals = [PyFloat (9 / 10)]\<rparr>"
  have p: "glom ?prev ?r = Inl ?e0"
    by (simp add: info_vals_T_unfold example_env_def show_int_m2)
  have l: "glom ?last ?r = Inr (PyFloat (9 / 10))"
    by (simp add: info_vals_T_unfold)
  have l0: "glom ?last \<lparr>info_vals = []\<rparr> = Inl ?e1"
    by (simp add: info_vals_T_unfold example_env_def show_int_m1)
  have p0: "glom ?prev \<lparr>info_vals = []\<rparr> = Inl ?e0"
    by (simp add: info_vals_T_unfold example_env_def show_int_m2)
  show ?thesis
    using p l l0 p0
      delta_below_missing_data [where ?spec1.0 = ?prev and ?spec0.0 = ?last and result = ?r
        and ?e1.0 = ?e0 and ?v0.0 = "PyFloat (9 / 10)" and E = example_env
        and limit = "LimInt 0" and absolute_value = False and name = None]
      delta_below_missing_data [where ?spec1.0 = ?last and ?spec0.0 = ?prev and result = ?r
        and ?e0.0 = ?e0 and ?v1.0 = "PyFloat (9 / 10)" and E = example_env
        and limit = "LimStr ''1e-4''" and absolute_value = True and name = None]
      delta_below_missing_data [where ?spec1.0 = ?last and ?spec0.0 = ?prev
        and result = "\<lparr>info_vals = []\<rparr>" and ?e1.0 = ?e1 and ?e0.0 = ?e0
        and E = example_env and limit = "LimStr ''1e-4''" and absolute_value = True
        and name = None]
    by simp
qed

text \<open>
  C1 as stated fails where the extraction that does not fail yields \<^verbatim>\<open>None\<close>: on
  \<^verbatim>\<open>info_vals = [None]\<close> the default \<^verbatim>\<open>spec1\<close> extracts \<^verbatim>\<open>None\<close>, the default
  \<^verbatim>\<open>spec0\<close> fails with an exception that is caught, so exactly one extraction fails,
  and the predicate raises that exception instead of returning \<^verbatim>\<open>None\<close>.
\<close>

theorem delta_below_one_failure_counterexample:
  "glom (info_vals_T example_env (- 1)) \<lparr>info_vals = [PyNone]\<rparr> = Inr PyNone
   \<and> glom (info_vals_T example_env (- 2)) \<lparr>info_vals = [PyNone]\<rparr>
       = Inl (Exc PathAccessError ''could not access T[-2]'')
   \<and> caught (exc_cls (Exc PathAccessError ''could not access T[-2]''))
   \<and> delta_below example_env (LimStr ''1e-4'') (info_vals_T example_env (- 1))
         (info_vals_T example_env (- 2)) True None \<lparr>info_vals = [PyNone]\<rparr>
       = Inl (Exc PathAccessError ''could not access T[-2]'')
   \<and> delta_below example_env (LimStr ''1e-4'') (info_vals_T example_env (- 1))
         (info_vals_T example_env (- 2)) True None \<lparr>info_vals = [PyNone]\<rparr>
       \<noteq> Inr PyNone"
  by (simp add: delta_below_unfold info_vals_T_unfold example_env_def show_int_m2)

text \<open>
  C8: an extraction that succeeds with the value \<^verbatim>\<open>None\<close> is treated as a failed one.
  When one specification yields \<^verbatim>\<open>None\<close> and the other a number, the predicate returns
  \<^verbatim>\<open>None\<close>, the same result as with a specification that fails in the place of the one
  yielding \<^verbatim>\<open>None\<close>. When both yield \<^verbatim>\<open>None\<close>, no exception was captured and the
  predicate goes on to \<^verbatim>\<open>None - None\<close>, which raises a \<^verbatim>\<open>TypeError\<close>.
\<close>

theorem delta_below_None_value:
  "(glom spec1 result = Inr PyNone \<and> glom spec0 result = Inr (PyFloat x)
      \<longrightarrow> delta_below E limit spec1 spec0 absolute_value name result = Inr PyNone)
   \<and> (glom spec1 result = Inr (PyFloat x) \<and> glom spec0 result = Inr PyNone
      \<longrightarrow> delta_below E limit spec1 spec0 absolute_value name result = Inr PyNone)
   \<and> (glom spec1 result = Inr PyNone \<and> glom spec0 result = Inr (PyFloat x)
        \<and> glom failing result = Inl e \<and> caught (exc_cls e)
      \<longrightarrow> delta_below E limit spec1 spec0 absolute_value name result
          = delta_below E limit failing spec0 absolute_value name result)
   \<and> (glom spec1 result = Inr (PyFloat x) \<and> glom spec0 result = Inr PyNone
        \<and> glom failing result = Inl e \<and> caught (exc_cls e)
      \<longrightarrow> delta_below E limit spec1 spec0 absolute_value name result
          = delta_below E limit spec1 failing absolute_value name result)
   \<and> (glom spec1 result = Inr PyNone \<and> glom spec0 result = Inr PyNone
      \<longrightarrow> delta_below E limit spec1 spec0 absolute_value name result = py_sub PyNone PyNone
          \<and> (\<exists>m. py_sub PyNone PyNone = Inl (Exc TypeError m)))"
  by (simp add: delta_below_unfold)

text \<open>
  With the default specifications: a \<^verbatim>\<open>None\<close> before or after a number in
  \<^verbatim>\<open>info_vals\<close> gives \<^verbatim>\<open>None\<close>, as a Result with the number alone does; two
  \<^verbatim>\<open>None\<close> entries give the \<^verbatim>\<open>TypeError\<close> of the subtraction.
\<close>

theorem delta_below_None_value_witness:
  "glom (info_vals_T example_env (- 1)) \<lparr>info_vals = [PyFloat 1, PyNone]\<rparr> = Inr PyNone
   \<and> glom (info_vals_T example_env (- 2)) \<lparr>info_vals = [PyFloat 1, PyNone]\<rparr> = Inr (PyFloat 1)
   \<and> delta_below example_env (LimStr ''1e-4'') (info_vals_T example_env (- 1))
         (info_vals_T example_env (- 2)) True None \<lparr>info_vals = [PyFloat 1, PyNone]\<rparr>
       = Inr PyNone
   \<and> glom (info_vals_T example_env (- 1)) \<lparr>info_vals = [PyNone, PyFloat 1]\<rparr> = Inr (PyFloat 1)
   \<and> glom (info_vals_T example_env (- 2)) \<lparr>info_vals = [PyNone, PyFloat 1]\<rparr> = Inr PyNone
   \<and> delta_below example_env (LimStr ''1e-4'') (info_vals_T example_env (- 1))
         (info_vals_T example_env (- 2)) True None \<lparr>info_vals = [PyNone, PyFloat 1]\<rparr>
       = Inr PyNone
   \<and> glom (info_vals_T example_env (- 3)) \<lparr>info_vals = [PyNone, PyFloat 1]\<rparr>
       = Inl (Exc PathAccessError ''could not access T[-3]'')
   \<and> caught (exc_cls (Exc PathAccessError ''could not access T[-3]''))
   \<and> delta_below example_env (LimStr ''1e-4'') (info_vals_T example_env (- 1))
         (info_vals_T example_env (- 2)) True None \<lparr>info_vals = [PyNone, PyFloat 1]\<rparr>
       = delta_below example_env (LimStr ''1e-4'') (info_vals_T example_env (- 1))
           (info_vals_T example_env (- 3)) True None \<lparr>info_vals = [PyNone, PyFloat 1]\<rparr>
   \<and> glom (info_vals_T example_env (- 1)) \<lparr>info_vals = [PyNone, PyNone]\<rparr> = Inr PyNone
   \<and> glom (info_vals_T example_env (- 2)) \<lparr>info_vals = [PyNone, PyNone]\<rparr> = Inr PyNone
   \<and> delta_below example_env (LimStr ''1e-4'') (info_vals_T example_env (- 1))
         (info_vals_T example_env (- 2)) True None \<lparr>info_vals = [PyNone, PyNone]\<rparr>
       = Inl (Exc TypeError (''unsupported operand type(s) for -: '' @ quoted ''NoneType''
                @ '' and '' @ quoted ''NoneType''))"
proof -
  let ?last = "info_vals_T example_env (- 1)" and ?prev = "info_vals_T example_env (- 2)"
  let ?third = "info_vals_T example_env (- 3)"
  let ?ra = "\<lparr>info_vals = [PyFloat 1, PyNone]\<rparr>"
  let ?rb = "\<lparr>info_vals = [PyNone, PyFloat 1]\<rparr>"
  let ?rc = "\<lparr>info_vals = [PyNone, PyNone]\<rparr>"
  let ?e = "Exc PathAccessError ''could not access T[-3]''"
  have a1: "glom ?last ?ra = Inr PyNone" and a0: "glom ?prev ?ra = Inr (PyFloat 1)"
    by (simp_all add: info_vals_T_unfold)
  have b1: "glom ?last ?rb = Inr (PyFloat 1)" and b0: "glom ?prev ?rb = Inr PyNone"
    by (simp_all add: info_vals_T_unfold)
  have c1: "glom ?last ?rc = Inr PyNone" and c0: "glom ?prev ?rc = Inr PyNone"
    by (simp_all add: info_vals_T_unfold)
  have b3: "glom ?third ?rb = Inl ?e"
    by (simp add: info_vals_T_unfold example_env_def show_int_def show_nat_digit digit_char_def)
  have c3: "caught (exc_cls ?e)"
    by simp
  have A: "delta_below example_env (LimStr ''1e-4'') ?last ?prev True None ?ra = Inr PyNone"
    using a1 a0
      delta_below_None_value [where ?spec1.0 = ?last and ?spec0.0 = ?prev and result = ?ra
        and x = 1 and failing = ?third and e = ?e and E = example_env
        and limit = "LimStr ''1e-4''" and absolute_value = True and name = None]
    by simp
  have B: "delta_below example_env (LimStr ''1e-4'') ?last ?prev True None ?rb = Inr PyNone"
    and B': "delta_below example_env (LimStr ''1e-4'') ?last ?prev True None ?rb
               = delta_below example_env (LimStr ''1e-4'') ?last ?third True None ?rb"
    using b1 b0 b3 c3
      delta_below_None_value [where ?spec1.0 = ?last and ?spec0.0 = ?prev and result = ?rb
        and x = 1 and failing = ?third and e = ?e and E = example_env
        and limit = "LimStr ''1e-4''" and absolute_value = True and name = None]
    by blast+
  have C: "delta_below example_env (LimStr ''1e-4'') ?last ?prev True None ?rc
             = Inl (Exc TypeError (''unsupported operand type(s) for -: '' @ quoted ''NoneType''
                      @ '' and '' @ quoted ''NoneType''))"
    using c1 c0
      delta_below_None_value [where ?spec1.0 = ?last and ?spec0.0 = ?prev and result = ?rc
        and x = 1 and failing = ?third and e = ?e and E = example_env
        and limit = "LimStr ''1e-4''" and absolute_value = True and name = None]
    by simp
  show ?thesis
    using a1 a0 b1 b0 c1 c0 b3 c3 A B B' C
    by (intro conjI)
qed

section \<open>The conversion of the limit\<close>

text \<open>
  C9: \<^verbatim>\<open>value_below\<close> and \<^verbatim>\<open>delta_below\<close> keep the limit as it was passed and apply
  \<^verbatim>\<open>float\<close> to it in each call, at the comparison. So for a string \<open>s\<close> on which
  \<^verbatim>\<open>float\<close> raises \<open>e\<close> the constructors still return a predicate, and a call of it
  raises \<open>e\<close> exactly when it reaches the comparison: \<^verbatim>\<open>value_below\<close> raises \<open>e\<close>
  after any successful extraction and raises the extraction's own exception when that
  fails; \<^verbatim>\<open>delta_below\<close> raises \<open>e\<close> when both extractions yield numbers, and returns
  \<^verbatim>\<open>None\<close> or raises the captured exception, without \<open>e\<close>, when data are missing.
\<close>

theorem limit_converted_on_call:
  assumes "float_str E s = Inl e"
  shows "(glom spc result = Inr v \<longrightarrow> value_below E (LimStr s) spc name result = Inl e)
       \<and> (glom spc result = Inl e' \<longrightarrow> value_below E (LimStr s) spc name result = Inl e')
       \<and> (glom spec1 result = Inr (PyFloat a) \<and> glom spec0 result = Inr (PyFloat b)
            \<longrightarrow> delta_below E (LimStr s) spec1 spec0 absolute_value name' result = Inl e)
       \<and> (glom spec1 result = Inr (PyFloat a) \<and> glom spec0 result = Inl e0 \<and> caught (exc_cls e0)
            \<longrightarrow> delta_below E (LimStr s) spec1 spec0 absolute_value name' result = Inr PyNone)
       \<and> (glom spec1 result = Inl e1 \<and> caught (exc_cls e1) \<and> glom spec0 result = Inl e0
            \<and> caught (exc_cls e0)
            \<longrightarrow> delta_below E (LimStr s) spec1 spec0 absolute_value name' result = Inl e0)"
  using assms by (simp add: value_below_def value_below_check_def delta_below_unfold)

text \<open>The limit \<^verbatim>\<open>'abc'\<close>, on Results with two values, one value and no value.\<close>

theorem limit_converted_on_call_witness:
  "float_str example_env ''abc''
       = Inl (Exc ValueError (''could not convert string to float: '' @ quoted ''abc''))
   \<and> value_below example_env (LimStr ''abc'') (info_vals_T example_env (- 1)) None
         \<lparr>info_vals = [PyFloat 2, PyFloat 1]\<rparr>
       = Inl (Exc ValueError (''could not convert string to float: '' @ quoted ''abc''))
   \<and> value_below example_env (LimStr ''abc'') (info_vals_T example_env (- 1)) None
         \<lparr>info_vals = []\<rparr>
       = Inl (Exc PathAccessError ''could not access T[-1]'')
   \<and> delta_below example_env (LimStr ''abc'') (info_vals_T example_env (- 1))
         (info_vals_T example_env (- 2)) True None \<lparr>info_vals = [PyFloat 2, PyFloat 1]\<rparr>
       = Inl (Exc ValueError (''could not convert string to float: '' @ quoted ''abc''))
   \<and> delta_below example_env (LimStr ''abc'') (info_vals_T example_env (- 1))
         (info_vals_T example_env (- 2)) True None \<lparr>info_vals = [PyFloat 1]\<rparr>
       = Inr PyNone
   \<and> delta_below example_env (LimStr ''abc'') (info_vals_T example_env (- 1))
         (info_vals_T example_env (- 2)) True None \<lparr>info_vals = []\<rparr>
       = Inl (Exc PathAccessError ''could not access T[-2]'')"
proof -
  let ?last = "info_vals_T example_env (- 1)" and ?prev = "info_vals_T example_env (- 2)"
  let ?ev = "Exc ValueError (''could not convert string to float: '' @ quoted ''abc'')"
  let ?el = "Exc PathAccessError ''could not access T[-1]''"
  let ?ep = "Exc PathAccessError ''could not access T[-2]''"
  let ?r2 = "\<lparr>info_vals = [PyFloat 2, PyFloat 1]\<rparr>"
  let ?r1 = "\<lparr>info_vals = [PyFloat 1]\<rparr>"
  let ?r0 = "\<lparr>info_vals = []\<rparr>"
  have f: "float_str example_env ''abc'' = Inl ?ev"
    by (simp add: example_env_def)
  have g21: "glom ?last ?r2 = Inr (PyFloat 1)" and g20: "glom ?prev ?r2 = Inr (PyFloat 2)"
    and g11: "glom ?last ?r1 = Inr (PyFloat 1)"
    by (simp_all add: info_vals_T_unfold)
  have g10: "glom ?prev ?r1 = Inl ?ep" and g00: "glom ?prev ?r0 = Inl ?ep"
    by (simp_all add: info_vals_T_unfold example_env_def show_int_m2)
  have g01: "glom ?last ?r0 = Inl ?el"
    by (simp add: info_vals_T_unfold example_env_def show_int_m1)
  show ?thesis
    using f g21 g20 g11 g10 g00 g01
      limit_converted_on_call [OF f, where spc = ?last and ?spec1.0 = ?last and ?spec0.0 = ?prev
        and result = ?r2 and v = "PyFloat 1" and a = 1 and b = 2 and name = None
        and absolute_value = True and name' = None]
      limit_converted_on_call [OF f, where spc = ?last and ?spec1.0 = ?last and ?spec0.0 = ?prev
        and result = ?r1 and a = 1 and ?e0.0 = ?ep and name = None
        and absolute_value = True and name' = None]
      limit_converted_on_call [OF f, where spc = ?last and ?spec1.0 = ?last and ?spec0.0 = ?prev
        and result = ?r0 and e' = ?el and ?e1.0 = ?el and ?e0.0 = ?ep and name = None
        and absolute_value = True and name' = None]
    by simp
qed

section \<open>The monotonicity predicates\<close>

text \<open>
  What the two predicates return on a Result with at least two values, the last two of
  them floats: \<^verbatim>\<open>check_monotonic_error\<close> fires if and only if the last value is
  greater than the one before it, \<^verbatim>\<open>check_monotonic_fidelity\<close> if and only if it is
  smaller. On equal values neither fires.
\<close>

lemma check_monotonic_error_last_two:
  assumes "info_vals result = xs @ [PyFloat prev, PyFloat cur]"
  shows "check_monotonic_error E result =
           (if prev < cur
            then Inr (PyStr ''Loss of monotonic convergence; error decrease < 0'')
            else Inr PyNone)"
  using assms
  by (simp add: check_monotonic_error_def monotonic_convergence_def delta_below_unfold
      info_vals_T_def py_index_last2 show_int_0)

lemma check_monotonic_fidelity_last_two:
  assumes "info_vals result = xs @ [PyFloat prev, PyFloat cur]"
  shows "check_monotonic_fidelity E result =
           (if cur < prev
            then Inr (PyStr ''Loss of monotonic convergence; fidelity increase < 0'')
            else Inr PyNone)"
  using assms
  by (simp add: check_monotonic_fidelity_def monotonic_fidelity_def delta_below_unfold
      info_vals_T_def py_index_last2 show_int_0)

text \<open>The doctests of the two predicates.\<close>

lemma check_monotonic_error_doctest:
  "check_monotonic_error E \<lparr>info_vals = [PyFloat (9 / 10)]\<rparr> = Inr PyNone"
  "check_monotonic_error E \<lparr>info_vals = [PyFloat (9 / 10), PyFloat (1 / 10)]\<rparr> = Inr PyNone"
  "check_monotonic_error E \<lparr>info_vals = [PyFloat (9 / 10), PyFloat (1 / 10), PyFloat (2 / 10)]\<rparr>
     = Inr (PyStr ''Loss of monotonic convergence; error decrease < 0'')"
  by (simp_all add: check_monotonic_error_def monotonic_convergence_def delta_below_unfold
      info_vals_T_unfold show_int_0)

lemma check_monotonic_fidelity_doctest:
  "check_monotonic_fidelity E \<lparr>info_vals = [PyFloat 0]\<rparr> = Inr PyNone"
  "check_monotonic_fidelity E \<lparr>info_vals = [PyFloat 0, PyFloat (2 / 10)]\<rparr> = Inr PyNone"
  "check_monotonic_fidelity E \<lparr>info_vals = [PyFloat 0, PyFloat (2 / 10), PyFloat (15 / 100)]\<rparr>
     = Inr (PyStr ''Loss of monotonic convergence; fidelity increase < 0'')"
  by (simp_all add: check_monotonic_fidelity_def monotonic_fidelity_def delta_below_unfold
      info_vals_T_unfold show_int_0)

text \<open>
  C2: the claim is that \<^verbatim>\<open>check_monotonic_error\<close> returns its message whenever the last
  value of \<^verbatim>\<open>info_vals\<close> is not smaller than the one before it, equal values included,
  as the docstring of the function says. The code compares \<open>previous - current < 0\<close>:
  on the equal values \<^verbatim>\<open>[1.0, 1.0]\<close> it returns \<^verbatim>\<open>None\<close>.
\<close>

theorem check_monotonic_error_equal_values:
  "check_monotonic_error E \<lparr>info_vals = [PyFloat 1, PyFloat 1]\<rparr> = Inr PyNone"
  by (simp add: check_monotonic_error_def monotonic_convergence_def delta_below_unfold
      info_vals_T_unfold)

text \<open>
  C7: the claim is that \<^verbatim>\<open>check_monotonic_fidelity\<close> returns its message whenever the
  last value of \<^verbatim>\<open>info_vals\<close> is not larger than the one before it, equal values
  included. The code compares \<open>current - previous < 0\<close>: on the equal values
  \<^verbatim>\<open>[1.0, 1.0]\<close> it returns \<^verbatim>\<open>None\<close>.
\<close>

theorem check_monotonic_fidelity_equal_values:
  "check_monotonic_fidelity E \<lparr>info_vals = [PyFloat 1, PyFloat 1]\<rparr> = Inr PyNone"
  by (simp add: check_monotonic_fidelity_def monotonic_fidelity_def delta_below_unfold
      info_vals_T_unfold)

end
